theory Spec2Isabelle
  imports Main
begin

section \<open>GitHub App linking handshake of \<^verbatim>\<open>server.py\<close>\<close>

text \<open>
  The development embeds the state-token codec (\<^verbatim>\<open>generate_state_token\<close>,
  \<^verbatim>\<open>decode_state_token\<close>), the two outbound calls of the callback
  (\<^verbatim>\<open>exchange_code_for_user_token\<close>, \<^verbatim>\<open>user_owns_installation\<close>), the callback
  handler \<^verbatim>\<open>github_callback\<close>, and the two outbound calls of the browsing path
  (\<^verbatim>\<open>get_installation_token\<close> and the contents fetch of \<^verbatim>\<open>list_files_in_repo\<close>).
  Python exceptions are values of the type \<open>error\<close>; the module-level dictionary
  \<^verbatim>\<open>INSTALLATIONS_DB\<close> and the sequence of outbound HTTP calls are threaded through as
  explicit state.
\<close>

subsection \<open>Exceptions\<close>

text \<open>
  \<open>HTTPException\<close> is FastAPI's exception (status code and detail), the only one the
  framework turns into the client error it names. The other constructors are the
  exceptions the source can raise and never catches: a missing dictionary key, a failure
  of the HTTP client (a timeout or any other transport failure), and a response body that
  is not JSON.
\<close>

datatype error =
    HTTPException int string
  | KeyError string
  | TimeoutException
  | TransportError
  | JSONDecodeError

fun is_http_exception :: "error \<Rightarrow> bool" where
  "is_http_exception (HTTPException status detail) = True"
| "is_http_exception (KeyError k) = False"
| "is_http_exception TimeoutException = False"
| "is_http_exception TransportError = False"
| "is_http_exception JSONDecodeError = False"

subsection \<open>The JWT library, as far as the source uses it\<close>

text \<open>
  The payload is the dictionary \<^verbatim>\<open>{"account_id": ..., "exp": ...}\<close>; a claim that is
  absent is \<open>None\<close>. The types follow the source's annotations: the account identifier
  is a string, the expiry a whole number of seconds.
\<close>

record payload =
  account_id :: "string option"
  exp :: "int option"

text \<open>
  Signatures are symbolic: \<open>Hmac k alg p\<close> is the MAC that key \<open>k\<close> gives for header
  algorithm \<open>alg\<close> and payload \<open>p\<close>, and a signature verifies exactly when it is that
  value (a perfect MAC, as in the symbolic protocol models of Isabelle's \<open>HOL/Auth\<close>).
  \<open>OtherSignature\<close> stands for any other byte string in the signature segment. A token is
  either a string that does not parse as three well-formed segments (\<open>Malformed\<close>, which
  includes the empty string) or a parsed header algorithm, payload and signature.
\<close>

datatype signature = Hmac string string payload | OtherSignature string

datatype token = Malformed string | Jws string payload signature

datatype jwt_error =
    DecodeError
  | InvalidAlgorithmError
  | InvalidSignatureError
  | ExpiredSignatureError

definition jwt_encode :: "payload \<Rightarrow> string \<Rightarrow> string \<Rightarrow> token" where
  "jwt_encode p key algorithm = Jws algorithm p (Hmac key algorithm p)"

text \<open>
  \<^verbatim>\<open>jwt.decode(token, key, algorithms=[...])\<close> at clock reading \<open>now\<close>: the segments
  are parsed, the header algorithm must be among the allowed ones, the signature must
  verify, and an \<^verbatim>\<open>exp\<close> claim that is present must lie in the future
  (\<^verbatim>\<open>exp <= now\<close> is expired, with the library's default leeway of zero).
\<close>

definition jwt_decode :: "token \<Rightarrow> string \<Rightarrow> string list \<Rightarrow> int \<Rightarrow> jwt_error + payload" where
  "jwt_decode t key algorithms now =
     (case t of
        Malformed s \<Rightarrow> Inl DecodeError
      | Jws alg p sig \<Rightarrow>
          if alg \<notin> set algorithms then Inl InvalidAlgorithmError
          else if sig \<noteq> Hmac key alg p then Inl InvalidSignatureError
          else (case exp p of
                  None \<Rightarrow> Inr p
                | Some e \<Rightarrow> if e \<le> now then Inl ExpiredSignatureError else Inr p))"

subsection \<open>State token codec\<close>

definition JWT_SECRET :: string where
  "JWT_SECRET = ''...''"

definition JWT_ALGORITHM :: string where
  "JWT_ALGORITHM = ''HS256''"

text \<open>\<open>now\<close> is the value of \<^verbatim>\<open>int(time.time())\<close> when the token is issued.\<close>

definition generate_state_token :: "string \<Rightarrow> int \<Rightarrow> token" where
  "generate_state_token acct now =
     jwt_encode \<lparr>account_id = Some acct, exp = Some (now + 300)\<rparr> JWT_SECRET JWT_ALGORITHM"

text \<open>
  The \<^verbatim>\<open>try\<close> block covers both the library call and the subscript
  \<^verbatim>\<open>payload["account_id"]\<close>. \<^verbatim>\<open>ExpiredSignatureError\<close> is caught first, every other
  library error by the \<^verbatim>\<open>PyJWTError\<close> clause; the \<^verbatim>\<open>KeyError\<close> of the subscript is
  not a library error and leaves the function as it is.
\<close>

definition decode_state_token :: "token \<Rightarrow> int \<Rightarrow> error + string" where
  "decode_state_token t now =
     (case jwt_decode t JWT_SECRET [JWT_ALGORITHM] now of
        Inr p \<Rightarrow> (case account_id p of
                    Some acct \<Rightarrow> Inr acct
                  | None \<Rightarrow> Inl (KeyError ''account_id''))
      | Inl ExpiredSignatureError \<Rightarrow> Inl (HTTPException 400 ''State token has expired.'')
      | Inl e \<Rightarrow> Inl (HTTPException 400 ''Invalid state token.''))"

subsection \<open>The application's JWT\<close>

text \<open>
  \<^verbatim>\<open>generate_app_jwt\<close> signs the claims \<^verbatim>\<open>iat\<close>, \<^verbatim>\<open>exp\<close> and \<^verbatim>\<open>iss\<close> with the
  application's private key under RS256. The signed token is symbolic again:
  \<open>AppJwt key algorithm iat exp iss\<close>.
\<close>

datatype app_jwt = AppJwt string string int int string

definition GITHUB_APP_ID :: string where
  "GITHUB_APP_ID = ''...''"

definition GITHUB_PRIVATE_KEY :: string where
  "GITHUB_PRIVATE_KEY = ''...''"

definition generate_app_jwt :: "int \<Rightarrow> app_jwt" where
  "generate_app_jwt now =
     (let exp_v = now + (10 * 60)
      in AppJwt GITHUB_PRIVATE_KEY ''RS256'' now exp_v GITHUB_APP_ID)"

subsection \<open>The external authority\<close>

text \<open>
  The values a JSON installation object can carry under \<^verbatim>\<open>"id"\<close>: null, a boolean, an
  integer or a string. (Floating-point numbers, arrays and objects as identifiers are
  outside the model.) \<open>py_str\<close> is Python's \<^verbatim>\<open>str\<close> on these values.
\<close>

datatype scalar = JNull | JBool bool | JInt int | JStr string

definition digit_char :: "nat \<Rightarrow> char" where
  "digit_char d = ''0123456789'' ! d"

function str_nat :: "nat \<Rightarrow> string" where
  "str_nat n =
     (if n < 10 then [digit_char n] else str_nat (n div 10) @ [digit_char (n mod 10)])"
  by pat_completeness auto
termination
  by (relation "measure (\<lambda>n. n)") auto

definition str_int :: "int \<Rightarrow> string" where
  "str_int i = (if i < 0 then CHR ''-'' # str_nat (nat (- i)) else str_nat (nat i))"

fun py_str :: "scalar \<Rightarrow> string" where
  "py_str JNull = ''None''"
| "py_str (JBool b) = (if b then ''True'' else ''False'')"
| "py_str (JInt i) = str_int i"
| "py_str (JStr s) = s"

text \<open>
  An installation object is a dictionary; the JSON body of a response is a dictionary of
  which the source reads the keys \<^verbatim>\<open>"access_token"\<close>, \<^verbatim>\<open>"installations"\<close> and
  \<^verbatim>\<open>"token"\<close> (\<open>None\<close>: the key is absent). A response has a status code, its body as
  text (\<^verbatim>\<open>resp.text\<close>) and the body as parsed JSON; a body that is not JSON has
  \<open>json = None\<close>, and \<^verbatim>\<open>resp.json()\<close> raises on it.
\<close>

type_synonym installation = "string \<rightharpoonup> scalar"

record json_body =
  access_token :: "string option"
  installations :: "installation list option"
  token :: "string option"

record response =
  status_code :: int
  resp_text :: string
  json :: "json_body option"

text \<open>
  For the program an outbound call either raises in the HTTP client (\<open>Raised\<close>: a
  timeout or another transport failure) or returns a response.
\<close>

datatype reply = Raised error | Returned response

text \<open>
  What the authority does with a call: it never answers, the connection fails, or its
  response arrives after so many seconds. Every call of the source goes through
  \<^verbatim>\<open>httpx.AsyncClient()\<close>, built without a timeout argument, so that the library's
  default of five seconds applies: \<open>httpx_send\<close> is what such a client gives the
  program, \<open>httpx_elapsed\<close> the seconds the program waits for it, and \<open>timed_out\<close>
  says that no response arrives within the timeout.
\<close>

datatype upstream = Silent | Refused | Answers nat response

definition httpx_timeout :: nat where
  "httpx_timeout = 5"

fun httpx_send :: "upstream \<Rightarrow> reply" where
  "httpx_send Silent = Raised TimeoutException"
| "httpx_send Refused = Raised TransportError"
| "httpx_send (Answers d resp) =
     (if d \<le> httpx_timeout then Returned resp else Raised TimeoutException)"

fun httpx_elapsed :: "upstream \<Rightarrow> nat" where
  "httpx_elapsed Silent = httpx_timeout"
| "httpx_elapsed Refused = 0"
| "httpx_elapsed (Answers d resp) = min d httpx_timeout"

fun timed_out :: "upstream \<Rightarrow> bool" where
  "timed_out Silent = True"
| "timed_out Refused = False"
| "timed_out (Answers d resp) = (httpx_timeout < d)"

text \<open>
  The four outbound calls: the code exchange (code and state), the installation listing
  (user credential), the installation-token request (application JWT and installation
  identifier) and the contents fetch (owner, repository and installation token). The
  authority answers a call knowing every call made before it, so that it may, for
  instance, accept an OAuth code only once.
\<close>

datatype call =
    PostAccessToken string token
  | GetUserInstallations string
  | PostInstallationToken app_jwt int
  | GetContents string string string

type_synonym authority = "call list \<Rightarrow> call \<Rightarrow> upstream"

text \<open>
  Python's \<^verbatim>\<open>not x\<close> on a string or \<^verbatim>\<open>None\<close>: true on \<^verbatim>\<open>None\<close> (an absent query
  parameter, a missing JSON key) and on the empty string. The empty string is a
  malformed token.
\<close>

fun py_not :: "string option \<Rightarrow> bool" where
  "py_not None = True"
| "py_not (Some s) = (s = [])"

fun py_not_token :: "token option \<Rightarrow> bool" where
  "py_not_token None = True"
| "py_not_token (Some t) = (t = Malformed [])"

text \<open>
  \<^verbatim>\<open>exchange_code_for_user_token\<close>: one POST with the code and the state; the status
  code is not looked at; a missing, null or empty \<^verbatim>\<open>access_token\<close> gives \<^verbatim>\<open>None\<close>.
  The second component of the result is the log of outbound calls, extended by this one.
\<close>

definition exchange_code_for_user_token ::
  "authority \<Rightarrow> string \<Rightarrow> token \<Rightarrow> call list \<Rightarrow> (error + string option) \<times> call list" where
  "exchange_code_for_user_token auth code_v state_v log =
     (let c = PostAccessToken code_v state_v; log' = log @ [c] in
      case httpx_send (auth log c) of
        Raised e \<Rightarrow> (Inl e, log')
      | Returned resp \<Rightarrow>
          (case json resp of
             None \<Rightarrow> (Inl JSONDecodeError, log')
           | Some resp_data \<Rightarrow>
               (case access_token resp_data of
                  None \<Rightarrow> (Inr None, log')
                | Some tok \<Rightarrow> if tok = [] then (Inr None, log') else (Inr (Some tok), log'))))"

text \<open>
  The loop of \<^verbatim>\<open>user_owns_installation\<close> over the listing: the subscript
  \<^verbatim>\<open>inst["id"]\<close> raises \<^verbatim>\<open>KeyError\<close> on an object without that key; the first object
  whose \<^verbatim>\<open>str(inst["id"])\<close> equals \<^verbatim>\<open>str(installation_id)\<close> ends the loop with
  \<^verbatim>\<open>True\<close>. The claimed identifier is a string, on which \<^verbatim>\<open>str\<close> is the identity.
  \<open>get_installations\<close> is \<^verbatim>\<open>data.get("installations", [])\<close>.
\<close>

definition get_installations :: "json_body \<Rightarrow> installation list" where
  "get_installations data = (case installations data of None \<Rightarrow> [] | Some insts \<Rightarrow> insts)"

fun owns_loop :: "installation list \<Rightarrow> string \<Rightarrow> error + bool" where
  "owns_loop [] iid = Inr False"
| "owns_loop (inst # rest) iid =
     (case inst ''id'' of
        None \<Rightarrow> Inl (KeyError ''id'')
      | Some v \<Rightarrow> if py_str v = iid then Inr True else owns_loop rest iid)"

definition user_owns_installation ::
  "authority \<Rightarrow> string \<Rightarrow> string \<Rightarrow> call list \<Rightarrow> (error + bool) \<times> call list" where
  "user_owns_installation auth user_token iid log =
     (let c = GetUserInstallations user_token; log' = log @ [c] in
      case httpx_send (auth log c) of
        Raised e \<Rightarrow> (Inl e, log')
      | Returned resp \<Rightarrow>
          if status_code resp \<noteq> 200 then (Inr False, log')
          else (case json resp of
                  None \<Rightarrow> (Inl JSONDecodeError, log')
                | Some data \<Rightarrow> (owns_loop (get_installations data) iid, log')))"

subsection \<open>The callback handler\<close>

text \<open>
  The three query parameters the handler reads (\<open>None\<close>: the parameter is absent), the
  state it works on (the directory and the log of outbound calls) and its response.
\<close>

record request =
  code :: "string option"
  installation_id :: "string option"
  state :: "token option"

record app_state =
  INSTALLATIONS_DB :: "string \<rightharpoonup> string"
  calls :: "call list"

datatype http_response = RedirectResponse string

text \<open>
  \<^verbatim>\<open>github_callback\<close>, read at clock value \<open>now\<close>. Past the three presence
  checks each parameter is a non-empty value, which \<open>the\<close> reads. Every exception ends
  the handler; the directory is written in one place only, after the ownership check.
\<close>

definition github_callback ::
  "authority \<Rightarrow> int \<Rightarrow> request \<Rightarrow> app_state \<Rightarrow> (error + http_response) \<times> app_state" where
  "github_callback auth now req s =
     (if py_not (code req) then (Inl (HTTPException 400 ''Missing OAuth code.''), s)
      else if py_not (installation_id req) then
        (Inl (HTTPException 400 ''Missing installation_id.''), s)
      else if py_not_token (state req) then
        (Inl (HTTPException 400 ''Missing state token.''), s)
      else
        (let code_v = the (code req); iid = the (installation_id req);
             state_token = the (state req)
         in case decode_state_token state_token now of
              Inl e \<Rightarrow> (Inl e, s)
            | Inr acct \<Rightarrow>
                (case exchange_code_for_user_token auth code_v state_token (calls s) of
                   (Inl e, log1) \<Rightarrow> (Inl e, s\<lparr>calls := log1\<rparr>)
                 | (Inr user_token, log1) \<Rightarrow>
                     if py_not user_token then
                       (Inl (HTTPException 400 ''Failed to exchange code for user token.''),
                        s\<lparr>calls := log1\<rparr>)
                     else
                       (case user_owns_installation auth (the user_token) iid log1 of
                          (Inl e, log2) \<Rightarrow> (Inl e, s\<lparr>calls := log2\<rparr>)
                        | (Inr owns, log2) \<Rightarrow>
                            if \<not> owns then
                              (Inl (HTTPException 403
                                 ''Installation is not associated with this user.''),
                               s\<lparr>calls := log2\<rparr>)
                            else
                              (Inr (RedirectResponse ''/setup''),
                               s\<lparr>INSTALLATIONS_DB := (INSTALLATIONS_DB s)(acct \<mapsto> iid),
                                 calls := log2\<rparr>)))))"

subsection \<open>The browsing handler\<close>

text \<open>
  \<^verbatim>\<open>get_installation_token\<close>: one POST with the application's JWT; on status 201 the
  \<^verbatim>\<open>"token"\<close> of the body, on any other status \<^verbatim>\<open>None\<close> (after a \<^verbatim>\<open>print\<close>, which
  is not modelled).
\<close>

definition get_installation_token ::
  "authority \<Rightarrow> app_jwt \<Rightarrow> int \<Rightarrow> call list \<Rightarrow> (error + string option) \<times> call list" where
  "get_installation_token auth app_jwt_v iid log =
     (let c = PostInstallationToken app_jwt_v iid; log' = log @ [c] in
      case httpx_send (auth log c) of
        Raised e \<Rightarrow> (Inl e, log')
      | Returned resp \<Rightarrow>
          if status_code resp = 201 then
            (case json resp of
               None \<Rightarrow> (Inl JSONDecodeError, log')
             | Some data \<Rightarrow> (Inr (token data), log'))
          else (Inr None, log'))"

text \<open>
  \<^verbatim>\<open>list_files_in_repo\<close>, read at clock value \<open>now\<close>, up to and including
  \<^verbatim>\<open>contents = resp.json()\<close>. The page is then rendered from the contents without any
  further call; the rendering is not modelled, and the result is the parsed body.
\<close>

definition list_files_in_repo ::
  "authority \<Rightarrow> int \<Rightarrow> string \<Rightarrow> string \<Rightarrow> int \<Rightarrow> call list \<Rightarrow>
     (error + json_body) \<times> call list" where
  "list_files_in_repo auth now owner repo iid log =
     (let app_jwt_v = generate_app_jwt now in
      case get_installation_token auth app_jwt_v iid log of
        (Inl e, log1) \<Rightarrow> (Inl e, log1)
      | (Inr installation_token, log1) \<Rightarrow>
          if py_not installation_token then
            (Inl (HTTPException 400 ''Failed to obtain installation token.''), log1)
          else
            (let c = GetContents owner repo (the installation_token); log2 = log1 @ [c] in
             case httpx_send (auth log1 c) of
               Raised e \<Rightarrow> (Inl e, log2)
             | Returned resp \<Rightarrow>
                 if status_code resp \<noteq> 200 then
                   (Inl (HTTPException (status_code resp)
                      (''Error fetching repo contents: '' @ resp_text resp)), log2)
                 else
                   (case json resp of
                      None \<Rightarrow> (Inl JSONDecodeError, log2)
                    | Some contents \<Rightarrow> (Inr contents, log2))))"

subsection \<open>Notions used in the statements\<close>

text \<open>All three parameters are present and non-empty: the handler passes its first step.\<close>

definition params_present :: "request \<Rightarrow> bool" where
  "params_present req =
     (\<not> py_not (code req) \<and> \<not> py_not (installation_id req) \<and> \<not> py_not_token (state req))"

text \<open>
  The listing the authority returns to the program: the installations of a response
  with status 200 and a JSON body. The claimed identifier appears in a listing when
  some installation's \<^verbatim>\<open>"id"\<close> has it as its string form, the integer \<open>999\<close> and the
  string \<^verbatim>\<open>"999"\<close> alike.
\<close>

fun returned_listing :: "reply \<Rightarrow> installation list option" where
  "returned_listing (Raised e) = None"
| "returned_listing (Returned resp) =
     (if status_code resp = 200 then map_option get_installations (json resp) else None)"

definition str_id_in_listing :: "installation list \<Rightarrow> string \<Rightarrow> bool" where
  "str_id_in_listing insts iid =
     list_ex (\<lambda>inst. case inst ''id'' of None \<Rightarrow> False | Some v \<Rightarrow> py_str v = iid) insts"

definition has_id :: "installation \<Rightarrow> bool" where
  "has_id inst = (inst ''id'' \<noteq> None)"

subsection \<open>A concrete authority for the scenarios\<close>

text \<open>
  An authority in the manner of GitHub, answering within a second or two: an OAuth code
  is exchanged once (a code that was posted before, and the empty code, get a body
  without \<^verbatim>\<open>access_token\<close>); the credential \<^verbatim>\<open>u-tok\<close> sees the given listing, any
  other credential gets status 401; the application gets the installation token
  \<^verbatim>\<open>ghs-tok\<close>, which reads the contents. \<open>timeout_authority\<close> never answers. With
  \<open>slow_second_authority\<close> the code exchange and the installation-token request are
  answered, the listing arrives after thirty seconds and the contents never.
\<close>

definition no_keys :: json_body where
  "no_keys = \<lparr>access_token = None, installations = None, token = None\<rparr>"

definition json_response :: "int \<Rightarrow> json_body \<Rightarrow> response" where
  "json_response status data = \<lparr>status_code = status, resp_text = ''{...}'', json = Some data\<rparr>"

fun posted_code :: "string \<Rightarrow> call \<Rightarrow> bool" where
  "posted_code c (PostAccessToken c' st) = (c' = c)"
| "posted_code c (GetUserInstallations ut) = False"
| "posted_code c (PostInstallationToken j iid) = False"
| "posted_code c (GetContents owner repo tok) = False"

fun scenario_authority :: "installation list \<Rightarrow> call list \<Rightarrow> call \<Rightarrow> upstream" where
  "scenario_authority listing log (PostAccessToken c st) =
     Answers 1 (json_response 200
       (no_keys\<lparr>access_token := (if c = [] \<or> list_ex (posted_code c) log then None
                                     else Some ''u-tok'')\<rparr>))"
| "scenario_authority listing log (GetUserInstallations ut) =
     (if ut = ''u-tok'' then Answers 1 (json_response 200 (no_keys\<lparr>installations := Some listing\<rparr>))
      else Answers 1 (json_response 401 no_keys))"
| "scenario_authority listing log (PostInstallationToken j iid) =
     Answers 1 (json_response 201 (no_keys\<lparr>token := Some ''ghs-tok''\<rparr>))"
| "scenario_authority listing log (GetContents owner repo tok) =
     (if tok = ''ghs-tok'' then Answers 2 (json_response 200 no_keys)
      else Answers 1 (json_response 401 no_keys))"

definition timeout_authority :: "call list \<Rightarrow> call \<Rightarrow> upstream" where
  "timeout_authority log c = Silent"

fun slow_second_authority :: "call list \<Rightarrow> call \<Rightarrow> upstream" where
  "slow_second_authority log (PostAccessToken c st) =
     Answers 1 (json_response 200 (no_keys\<lparr>access_token := Some ''u-tok''\<rparr>))"
| "slow_second_authority log (GetUserInstallations ut) =
     Answers 30 (json_response 200 (no_keys\<lparr>installations := Some []\<rparr>))"
| "slow_second_authority log (PostInstallationToken j iid) =
     Answers 1 (json_response 201 (no_keys\<lparr>token := Some ''ghs-tok''\<rparr>))"
| "slow_second_authority log (GetContents owner repo tok) = Silent"

definition scenario_request :: "string \<Rightarrow> request" where
  "scenario_request c =
     \<lparr>code = Some c, installation_id = Some ''999'',
      state = Some (generate_state_token ''acct-1'' 1000)\<rparr>"

text \<open>
  The same request with a state token that is signed with the secret, expires at 2000
  and carries no \<^verbatim>\<open>account_id\<close>.
\<close>

definition no_account_request :: request where
  "no_account_request =
     \<lparr>code = Some ''abc'', installation_id = Some ''999'',
      state = Some (jwt_encode \<lparr>account_id = None, exp = Some 2000\<rparr> JWT_SECRET JWT_ALGORITHM)\<rparr>"

definition empty_state :: app_state where
  "empty_state = \<lparr>INSTALLATIONS_DB = Map.empty, calls = []\<rparr>"

section \<open>Auxiliary facts\<close>

subsection \<open>The codec\<close>

lemma jwt_decode_encode:
  "jwt_decode (jwt_encode p key alg) key [alg] now =
     (case exp p of None \<Rightarrow> Inr p
      | Some e \<Rightarrow> if e \<le> now then Inl ExpiredSignatureError else Inr p)"
  by (simp add: jwt_decode_def jwt_encode_def)

lemma decode_state_token_jwt_error:
  "jwt_decode t JWT_SECRET [JWT_ALGORITHM] now = Inl e \<Longrightarrow>
   decode_state_token t now =
     Inl (HTTPException 400
       (if e = ExpiredSignatureError then ''State token has expired.''
        else ''Invalid state token.''))"
  by (cases e) (simp_all add: decode_state_token_def)

text \<open>
  Only a token signed with the secret decodes, and it decodes to the account identifier
  in its own payload.
\<close>

lemma decode_state_token_Inr:
  "decode_state_token t now = Inr acct \<Longrightarrow>
   \<exists>p. t = jwt_encode p JWT_SECRET JWT_ALGORITHM \<and> account_id p = Some acct"
  by (cases t)
     (auto simp: decode_state_token_def jwt_decode_def jwt_encode_def
           split: if_splits option.splits sum.splits jwt_error.splits)

subsection \<open>The HTTP client\<close>

lemma httpx_elapsed_le: "httpx_elapsed u \<le> httpx_timeout"
  by (cases u) simp_all

lemma timed_out_send: "timed_out u \<Longrightarrow> httpx_send u = Raised TimeoutException"
  by (cases u) simp_all

subsection \<open>The outbound calls\<close>

lemma owns_loop_str:
  "list_all has_id insts \<Longrightarrow> owns_loop insts iid = Inr (str_id_in_listing insts iid)"
  by (induction insts) (auto simp: has_id_def str_id_in_listing_def)

lemma owns_loop_hit:
  "list_all has_id pre \<Longrightarrow> inst ''id'' = Some v \<Longrightarrow> py_str v = iid \<Longrightarrow>
   owns_loop (pre @ inst # post) iid = Inr True"
  by (induction pre) (auto simp: has_id_def)

lemma owns_loop_True: "owns_loop insts iid = Inr True \<Longrightarrow> str_id_in_listing insts iid"
  by (induction insts) (auto simp: str_id_in_listing_def split: option.splits if_splits)

lemma returned_listing_Some:
  "returned_listing r = Some insts \<Longrightarrow>
   \<exists>resp data. r = Returned resp \<and> status_code resp = 200 \<and> json resp = Some data \<and>
     insts = get_installations data"
  by (cases r) (auto split: if_splits)

lemma user_owns_installation_returned:
  "httpx_send (auth log (GetUserInstallations ut)) = Returned resp \<Longrightarrow>
   user_owns_installation auth ut iid log =
     (if status_code resp \<noteq> 200 then Inr False
      else case json resp of
             None \<Rightarrow> Inl JSONDecodeError
           | Some data \<Rightarrow> owns_loop (get_installations data) iid,
      log @ [GetUserInstallations ut])"
  by (simp add: user_owns_installation_def Let_def split: option.splits)

lemma user_owns_installation_raised:
  "httpx_send (auth log (GetUserInstallations ut)) = Raised e \<Longrightarrow>
   user_owns_installation auth ut iid log = (Inl e, log @ [GetUserInstallations ut])"
  by (simp add: user_owns_installation_def Let_def)

lemma user_owns_installation_log:
  "snd (user_owns_installation auth ut iid log) = log @ [GetUserInstallations ut]"
  by (simp add: user_owns_installation_def Let_def split: reply.splits option.splits)

lemma exchange_log:
  "snd (exchange_code_for_user_token auth c st log) = log @ [PostAccessToken c st]"
  by (simp add: exchange_code_for_user_token_def Let_def split: reply.splits option.splits)

lemma exchange_raised:
  "httpx_send (auth log (PostAccessToken c st)) = Raised e \<Longrightarrow>
   exchange_code_for_user_token auth c st log = (Inl e, log @ [PostAccessToken c st])"
  by (simp add: exchange_code_for_user_token_def Let_def)

lemma exchange_result:
  "exchange_code_for_user_token auth c st log = (Inr (Some ut), log') \<Longrightarrow> ut \<noteq> []"
  by (auto simp: exchange_code_for_user_token_def Let_def
           split: reply.splits option.splits if_splits)

lemma get_installation_token_log:
  "snd (get_installation_token auth j iid log) = log @ [PostInstallationToken j iid]"
  by (simp add: get_installation_token_def Let_def split: reply.splits option.splits)

lemma get_installation_token_raised:
  "httpx_send (auth log (PostInstallationToken j iid)) = Raised e \<Longrightarrow>
   get_installation_token auth j iid log = (Inl e, log @ [PostInstallationToken j iid])"
  by (simp add: get_installation_token_def Let_def)

lemma list_files_in_repo_token_raised:
  "httpx_send (auth log (PostInstallationToken (generate_app_jwt now) iid)) = Raised e \<Longrightarrow>
   fst (list_files_in_repo auth now owner repo iid log) = Inl e"
  by (simp add: list_files_in_repo_def Let_def get_installation_token_raised)

lemma list_files_in_repo_contents_raised:
  assumes "fst (get_installation_token auth (generate_app_jwt now) iid log) = Inr (Some tok)"
    and "tok \<noteq> []"
    and "httpx_send (auth (log @ [PostInstallationToken (generate_app_jwt now) iid])
           (GetContents owner repo tok)) = Raised e"
  shows "fst (list_files_in_repo auth now owner repo iid log) = Inl e"
proof -
  have "get_installation_token auth (generate_app_jwt now) iid log
          = (Inr (Some tok), log @ [PostInstallationToken (generate_app_jwt now) iid])"
    using assms(1) get_installation_token_log [of auth "generate_app_jwt now" iid log]
    by (metis prod.collapse)
  with assms(2,3) show ?thesis
    by (simp add: list_files_in_repo_def Let_def)
qed

subsection \<open>The handler, unfolded\<close>

lemma github_callback_absent:
  "\<not> params_present req \<Longrightarrow>
   github_callback auth now req s =
     (Inl (HTTPException 400
        (if py_not (code req) then ''Missing OAuth code.''
         else if py_not (installation_id req) then ''Missing installation_id.''
         else ''Missing state token.'')), s)"
  by (auto simp: github_callback_def params_present_def)

lemma github_callback_unfolded:
  assumes "params_present req"
  shows "github_callback auth now req s =
     (case decode_state_token (the (state req)) now of
        Inl e \<Rightarrow> (Inl e, s)
      | Inr acct \<Rightarrow>
         (case fst (exchange_code_for_user_token auth (the (code req)) (the (state req)) (calls s)) of
            Inl e \<Rightarrow> (Inl e, s\<lparr>calls := calls s @ [PostAccessToken (the (code req)) (the (state req))]\<rparr>)
          | Inr None \<Rightarrow>
              (Inl (HTTPException 400 ''Failed to exchange code for user token.''),
               s\<lparr>calls := calls s @ [PostAccessToken (the (code req)) (the (state req))]\<rparr>)
          | Inr (Some ut) \<Rightarrow>
              (case fst (user_owns_installation auth ut (the (installation_id req))
                       (calls s @ [PostAccessToken (the (code req)) (the (state req))])) of
                 Inl e \<Rightarrow>
                   (Inl e, s\<lparr>calls := calls s @ [PostAccessToken (the (code req)) (the (state req)),
                                                   GetUserInstallations ut]\<rparr>)
               | Inr owns \<Rightarrow>
                   if owns then
                     (Inr (RedirectResponse ''/setup''),
                      s\<lparr>INSTALLATIONS_DB := (INSTALLATIONS_DB s)(acct \<mapsto> the (installation_id req)),
                        calls := calls s @ [PostAccessToken (the (code req)) (the (state req)),
                                           GetUserInstallations ut]\<rparr>)
                   else
                     (Inl (HTTPException 403 ''Installation is not associated with this user.''),
                      s\<lparr>calls := calls s @ [PostAccessToken (the (code req)) (the (state req)),
                                            GetUserInstallations ut]\<rparr>))))"
proof -
  obtain x1 l1 where ex:
    "exchange_code_for_user_token auth (the (code req)) (the (state req)) (calls s) = (x1, l1)"
    by (cases "exchange_code_for_user_token auth (the (code req)) (the (state req)) (calls s)")
  have l1: "l1 = calls s @ [PostAccessToken (the (code req)) (the (state req))]"
    using exchange_log [of auth "the (code req)" "the (state req)" "calls s"] ex by simp
  have ne: "\<And>ut. x1 = Inr (Some ut) \<Longrightarrow> ut \<noteq> []"
    using ex exchange_result by blast
  show ?thesis
  proof (cases "decode_state_token (the (state req)) now")
    case (Inl e)
    with assms show ?thesis
      by (simp add: github_callback_def params_present_def Let_def)
  next
    case (Inr acct)
    show ?thesis
    proof (cases x1)
      case (Inl e)
      with assms Inr ex l1 show ?thesis
        by (simp add: github_callback_def params_present_def Let_def)
    next
      case inr: (Inr tok)
      show ?thesis
      proof (cases tok)
        case None
        with assms Inr ex l1 inr show ?thesis
          by (simp add: github_callback_def params_present_def Let_def)
      next
        case (Some ut)
        with ne inr have "ut \<noteq> []" by simp
        obtain x2 l2 where ow:
          "user_owns_installation auth ut (the (installation_id req)) l1 = (x2, l2)"
          by (cases "user_owns_installation auth ut (the (installation_id req)) l1")
        have l2: "l2 = l1 @ [GetUserInstallations ut]"
          using user_owns_installation_log [of auth ut "the (installation_id req)" l1] ow by simp
        from assms Inr ex l1 inr Some \<open>ut \<noteq> []\<close> ow l2 show ?thesis
          by (cases x2) (simp_all add: github_callback_def params_present_def Let_def)
      qed
    qed
  qed
qed

text \<open>
  The outcome for each kind of request on which the handler ends in an
  \<open>HTTPException\<close> or in the redirect.
\<close>

lemma github_callback_outcomes:
  "(\<not> params_present req \<longrightarrow>
      fst (github_callback auth now req s) \<in>
        {Inl (HTTPException 400 ''Missing OAuth code.''),
         Inl (HTTPException 400 ''Missing installation_id.''),
         Inl (HTTPException 400 ''Missing state token.'')}) \<and>
   (params_present req \<and> jwt_decode (the (state req)) JWT_SECRET [JWT_ALGORITHM] now = Inl e \<longrightarrow>
      fst (github_callback auth now req s) =
        Inl (HTTPException 400 (if e = ExpiredSignatureError then ''State token has expired.''
                                else ''Invalid state token.''))) \<and>
   (params_present req \<and> decode_state_token (the (state req)) now = Inr acct \<and>
    fst (exchange_code_for_user_token auth (the (code req)) (the (state req)) (calls s)) = Inr None \<longrightarrow>
      fst (github_callback auth now req s) =
        Inl (HTTPException 400 ''Failed to exchange code for user token.'')) \<and>
   (params_present req \<and> decode_state_token (the (state req)) now = Inr acct \<and>
    fst (exchange_code_for_user_token auth (the (code req)) (the (state req)) (calls s)) = Inr (Some ut) \<and>
    fst (user_owns_installation auth ut (the (installation_id req))
           (calls s @ [PostAccessToken (the (code req)) (the (state req))])) = Inr False \<longrightarrow>
      fst (github_callback auth now req s) =
        Inl (HTTPException 403 ''Installation is not associated with this user.'')) \<and>
   (params_present req \<and> decode_state_token (the (state req)) now = Inr acct \<and>
    fst (exchange_code_for_user_token auth (the (code req)) (the (state req)) (calls s)) = Inr (Some ut) \<and>
    fst (user_owns_installation auth ut (the (installation_id req))
           (calls s @ [PostAccessToken (the (code req)) (the (state req))])) = Inr True \<longrightarrow>
      fst (github_callback auth now req s) = Inr (RedirectResponse ''/setup''))"
proof (cases "params_present req")
  case False
  then show ?thesis by (simp add: github_callback_absent)
next
  case True
  then show ?thesis
    by (auto simp: github_callback_unfolded decode_state_token_jwt_error)
qed

subsection \<open>Evaluating the scenarios\<close>

lemmas run_defs =
  github_callback_def scenario_request_def no_account_request_def empty_state_def
  generate_state_token_def jwt_encode_def decode_state_token_def jwt_decode_def
  exchange_code_for_user_token_def user_owns_installation_def get_installations_def
  get_installation_token_def list_files_in_repo_def generate_app_jwt_def
  str_int_def digit_char_def JWT_SECRET_def JWT_ALGORITHM_def params_present_def
  timeout_authority_def no_keys_def json_response_def httpx_timeout_def Let_def

lemma scenario_token_decodes:
  "decode_state_token (generate_state_token ''acct-1'' 1000) 1010 = Inr ''acct-1''"
  by (simp add: decode_state_token_def generate_state_token_def jwt_decode_encode)

section \<open>The state token\<close>

text \<open>
  C3. Decoding a freshly issued state token at any time strictly before its expiry
  (issue time plus 300 seconds) returns the account identifier it was issued for.
\<close>

theorem state_token_roundtrip:
  "now' < now + 300 \<Longrightarrow>
   decode_state_token (generate_state_token acct now) now' = Inr acct"
  by (simp add: decode_state_token_def generate_state_token_def jwt_decode_encode)

theorem state_token_roundtrip_witness:
  "(1299 :: int) < 1000 + 300 \<and>
   decode_state_token (generate_state_token ''acct-1'' 1000) 1299 = Inr ''acct-1''"
  using state_token_roundtrip [of 1299 1000 "''acct-1''"] by simp

text \<open>
  C4. A state token issued at time \<open>T\<close> fails with the expired-state error (status 400)
  when decoded at \<open>T + 300 + 1\<close> and decodes to its account identifier at \<open>T + 300 - 1\<close>.
\<close>

theorem state_token_expiry:
  "decode_state_token (generate_state_token acct T) (T + 300 + 1)
     = Inl (HTTPException 400 ''State token has expired.'') \<and>
   decode_state_token (generate_state_token acct T) (T + 300 - 1) = Inr acct"
  by (simp add: decode_state_token_def generate_state_token_def jwt_decode_encode)

text \<open>
  C5. The claim asks for the invalid-token error (status 400) on every token that lacks a
  required claim. A token signed with the secret whose payload has an expiry and no
  \<^verbatim>\<open>account_id\<close> passes the library's checks; the subscript then raises
  \<^verbatim>\<open>KeyError\<close>, which neither \<^verbatim>\<open>except\<close> clause catches: the function ends with
  that exception, not with an \<open>HTTPException\<close>.
\<close>

theorem decode_missing_account_id:
  "decode_state_token (jwt_encode \<lparr>account_id = None, exp = Some 2000\<rparr> JWT_SECRET JWT_ALGORITHM) 1000
     = Inl (KeyError ''account_id'') \<and>
   \<not> is_http_exception (KeyError ''account_id'')"
  by (simp add: decode_state_token_def jwt_decode_encode)

section \<open>The ownership check\<close>

text \<open>
  C1, as the specification words it, fails. The authority returns a listing whose one
  installation carries no \<^verbatim>\<open>id\<close>; the claimed identifier is absent from that listing,
  and the check does not return false: it ends with the \<^verbatim>\<open>KeyError\<close> of the
  subscript.
\<close>

theorem ownership_missing_id_counterexample:
  "returned_listing
     (httpx_send (scenario_authority [[''app_id'' \<mapsto> JInt 1]] [] (GetUserInstallations ''u-tok'')))
     = Some [[''app_id'' \<mapsto> JInt 1]] \<and>
   \<not> str_id_in_listing [[''app_id'' \<mapsto> JInt 1]] ''999'' \<and>
   fst (user_owns_installation (scenario_authority [[''app_id'' \<mapsto> JInt 1]]) ''u-tok'' ''999'' [])
     = Inl (KeyError ''id'')"
  by (simp add: run_defs str_id_in_listing_def)

text \<open>
  C1, amended. The check returns false when the authority responds with a status other
  than 200. When the authority returns a listing in which every installation carries an
  \<^verbatim>\<open>id\<close>, the check returns true if and only if the claimed identifier appears in the
  listing (as the string form of a listed \<^verbatim>\<open>id\<close>); so it returns false when the
  listing is empty and when the identifier is absent from it.
\<close>

theorem ownership_by_string_form:
  "(httpx_send (auth log (GetUserInstallations ut)) = Returned resp \<and> status_code resp \<noteq> 200 \<longrightarrow>
      fst (user_owns_installation auth ut iid log) = Inr False) \<and>
   (returned_listing (httpx_send (auth log (GetUserInstallations ut))) = Some insts \<and>
    list_all has_id insts \<longrightarrow>
      fst (user_owns_installation auth ut iid log) = Inr (str_id_in_listing insts iid)) \<and>
   (returned_listing (httpx_send (auth log (GetUserInstallations ut))) = Some [] \<longrightarrow>
      fst (user_owns_installation auth ut iid log) = Inr False)"
proof (intro conjI impI)
  assume "httpx_send (auth log (GetUserInstallations ut)) = Returned resp \<and> status_code resp \<noteq> 200"
  then show "fst (user_owns_installation auth ut iid log) = Inr False"
    by (simp add: user_owns_installation_returned)
next
  assume h: "returned_listing (httpx_send (auth log (GetUserInstallations ut))) = Some insts \<and>
    list_all has_id insts"
  then obtain resp data where
    "httpx_send (auth log (GetUserInstallations ut)) = Returned resp"
    "status_code resp = 200" "json resp = Some data" "insts = get_installations data"
    using returned_listing_Some by blast
  with h show "fst (user_owns_installation auth ut iid log) = Inr (str_id_in_listing insts iid)"
    by (simp add: user_owns_installation_returned owns_loop_str)
next
  assume "returned_listing (httpx_send (auth log (GetUserInstallations ut))) = Some []"
  then obtain resp data where
    "httpx_send (auth log (GetUserInstallations ut)) = Returned resp"
    "status_code resp = 200" "json resp = Some data" "[] = get_installations data"
    using returned_listing_Some by blast
  then show "fst (user_owns_installation auth ut iid log) = Inr False"
    by (simp add: user_owns_installation_returned)
qed

theorem ownership_by_string_form_witness:
  "fst (user_owns_installation (scenario_authority [[''id'' \<mapsto> JInt 999]]) ''intruder'' ''999'' [])
     = Inr False \<and>
   list_all has_id [[''id'' \<mapsto> JInt 7], [''id'' \<mapsto> JInt 999]] \<and>
   str_id_in_listing [[''id'' \<mapsto> JInt 7], [''id'' \<mapsto> JInt 999]] ''999'' \<and>
   fst (user_owns_installation
          (scenario_authority [[''id'' \<mapsto> JInt 7], [''id'' \<mapsto> JInt 999]]) ''u-tok'' ''999'' [])
     = Inr True \<and>
   \<not> str_id_in_listing [[''id'' \<mapsto> JInt 7], [''id'' \<mapsto> JInt 999]] ''99'' \<and>
   fst (user_owns_installation
          (scenario_authority [[''id'' \<mapsto> JInt 7], [''id'' \<mapsto> JInt 999]]) ''u-tok'' ''99'' [])
     = Inr False \<and>
   fst (user_owns_installation (scenario_authority []) ''u-tok'' ''999'' []) = Inr False"
  using
    ownership_by_string_form [of "scenario_authority [[''id'' \<mapsto> JInt 999]]" "[]" "''intruder''"
      "json_response 401 no_keys" "''999''" "[]"]
    ownership_by_string_form [of "scenario_authority [[''id'' \<mapsto> JInt 7], [''id'' \<mapsto> JInt 999]]"
      "[]" "''u-tok''" _ "''999''" "[[''id'' \<mapsto> JInt 7], [''id'' \<mapsto> JInt 999]]"]
    ownership_by_string_form [of "scenario_authority [[''id'' \<mapsto> JInt 7], [''id'' \<mapsto> JInt 999]]"
      "[]" "''u-tok''" _ "''99''" "[[''id'' \<mapsto> JInt 7], [''id'' \<mapsto> JInt 999]]"]
    ownership_by_string_form [of "scenario_authority []" "[]" "''u-tok''" _ "''999''" "[]"]
  by (simp add: run_defs has_id_def str_id_in_listing_def)

text \<open>
  C10, as it is worded (for every listing that contains the integer identifier), fails:
  in front of the installation with the integer \<open>999\<close> stands one without \<^verbatim>\<open>id\<close>, and
  the check of \<^verbatim>\<open>"999"\<close> ends with \<^verbatim>\<open>KeyError\<close> before the loop reaches it.
\<close>

theorem integer_id_behind_missing_id_counterexample:
  "returned_listing
     (httpx_send (scenario_authority [[''app_id'' \<mapsto> JInt 1], [''id'' \<mapsto> JInt 999]] []
        (GetUserInstallations ''u-tok'')))
     = Some [[''app_id'' \<mapsto> JInt 1], [''id'' \<mapsto> JInt 999]] \<and>
   str_int 999 = ''999'' \<and>
   fst (user_owns_installation
          (scenario_authority [[''app_id'' \<mapsto> JInt 1], [''id'' \<mapsto> JInt 999]]) ''u-tok'' ''999'' [])
     = Inl (KeyError ''id'')"
  by (simp add: run_defs)

text \<open>
  C10, amended. Identifiers are compared after converting both sides to strings. For
  every returned listing that contains an installation whose \<^verbatim>\<open>id\<close> is the integer
  \<open>n\<close>, the installations in front of it each carrying an \<^verbatim>\<open>id\<close>, the check of the
  decimal string of \<open>n\<close> returns true, although the integer and the string are
  different values; and whenever the check returns true, the claimed identifier is the
  string form of a listed \<^verbatim>\<open>id\<close>.
\<close>

theorem owns_integer_id_given_as_string:
  "returned_listing (httpx_send (auth log (GetUserInstallations ut))) = Some insts \<Longrightarrow>
   (insts = pre @ inst # post \<and> list_all has_id pre \<and> inst ''id'' = Some (JInt n) \<longrightarrow>
      fst (user_owns_installation auth ut (str_int n) log) = Inr True \<and>
      JInt n \<noteq> JStr (str_int n)) \<and>
   (fst (user_owns_installation auth ut iid log) = Inr True \<longrightarrow> str_id_in_listing insts iid)"
proof -
  assume "returned_listing (httpx_send (auth log (GetUserInstallations ut))) = Some insts"
  then obtain resp data where r:
    "httpx_send (auth log (GetUserInstallations ut)) = Returned resp"
    "status_code resp = 200" "json resp = Some data" "insts = get_installations data"
    using returned_listing_Some by blast
  have run: "\<And>x. fst (user_owns_installation auth ut x log) = owns_loop insts x"
    using r by (simp add: user_owns_installation_returned)
  show ?thesis
    by (auto simp: run owns_loop_hit owns_loop_True)
qed

theorem owns_integer_id_given_as_string_witness:
  "list_all has_id [[''id'' \<mapsto> JStr ''abc'']] \<and> str_int 999 = ''999'' \<and>
   fst (user_owns_installation
          (scenario_authority [[''id'' \<mapsto> JStr ''abc''], [''id'' \<mapsto> JInt 999, ''app_id'' \<mapsto> JInt 1]])
          ''u-tok'' ''999'' []) = Inr True \<and>
   str_id_in_listing [[''id'' \<mapsto> JStr ''abc''], [''id'' \<mapsto> JInt 999, ''app_id'' \<mapsto> JInt 1]] ''999''"
  using owns_integer_id_given_as_string
    [of "scenario_authority [[''id'' \<mapsto> JStr ''abc''], [''id'' \<mapsto> JInt 999, ''app_id'' \<mapsto> JInt 1]]"
        "[]" "''u-tok''"
        "[[''id'' \<mapsto> JStr ''abc''], [''id'' \<mapsto> JInt 999, ''app_id'' \<mapsto> JInt 1]]"
        "[[''id'' \<mapsto> JStr ''abc'']]" "[''id'' \<mapsto> JInt 999, ''app_id'' \<mapsto> JInt 1]" "[]" 999
        "''999''"]
  by (simp add: run_defs has_id_def)

section \<open>The callback\<close>

text \<open>
  C2. Whatever the request, a callback that ends in an exception leaves the directory as
  it was; one that ends in a response had all three parameters, a state token that
  decoded to an account, a code exchange that gave a credential and an ownership check
  that returned true, and the directory differs only in mapping that account to the
  claimed installation.
\<close>

theorem callback_directory:
  "github_callback auth now req s = (r, s') \<Longrightarrow>
   (case r of
      Inl e \<Rightarrow> INSTALLATIONS_DB s' = INSTALLATIONS_DB s
    | Inr resp \<Rightarrow>
        params_present req \<and>
        (\<exists>acct ut.
           decode_state_token (the (state req)) now = Inr acct \<and>
           fst (exchange_code_for_user_token auth (the (code req)) (the (state req)) (calls s))
             = Inr (Some ut) \<and>
           fst (user_owns_installation auth ut (the (installation_id req))
                  (calls s @ [PostAccessToken (the (code req)) (the (state req))])) = Inr True \<and>
           INSTALLATIONS_DB s' = (INSTALLATIONS_DB s)(acct \<mapsto> the (installation_id req))))"
proof (cases "params_present req")
  case False
  assume "github_callback auth now req s = (r, s')"
  with False show ?thesis by (auto simp: github_callback_absent)
next
  case True
  assume run: "github_callback auth now req s = (r, s')"
  show ?thesis
    using run True
    by (auto simp: github_callback_unfolded split: sum.splits option.splits if_splits)
qed

theorem callback_directory_witness:
  "fst (github_callback (scenario_authority [[''id'' \<mapsto> JInt 998]]) 1010
          (scenario_request ''abc'') empty_state)
     = Inl (HTTPException 403 ''Installation is not associated with this user.'') \<and>
   INSTALLATIONS_DB (snd (github_callback (scenario_authority [[''id'' \<mapsto> JInt 998]]) 1010
          (scenario_request ''abc'') empty_state)) = Map.empty \<and>
   fst (github_callback (scenario_authority [[''id'' \<mapsto> JInt 999]]) 1010
          (scenario_request ''abc'') empty_state) = Inr (RedirectResponse ''/setup'') \<and>
   INSTALLATIONS_DB (snd (github_callback (scenario_authority [[''id'' \<mapsto> JInt 999]]) 1010
          (scenario_request ''abc'') empty_state)) = [''acct-1'' \<mapsto> ''999'']"
proof -
  have denied:
    "fst (github_callback (scenario_authority [[''id'' \<mapsto> JInt 998]]) 1010
            (scenario_request ''abc'') empty_state)
       = Inl (HTTPException 403 ''Installation is not associated with this user.'')"
    by (simp add: run_defs)
  have linked:
    "fst (github_callback (scenario_authority [[''id'' \<mapsto> JInt 999]]) 1010
            (scenario_request ''abc'') empty_state) = Inr (RedirectResponse ''/setup'')"
    by (simp add: run_defs)
  have req: "the (installation_id (scenario_request ''abc'')) = ''999''"
       "the (state (scenario_request ''abc'')) = generate_state_token ''acct-1'' 1000"
       "INSTALLATIONS_DB empty_state = Map.empty"
    by (simp_all add: scenario_request_def empty_state_def)
  from callback_directory [OF prod.collapse [symmetric],
      of "scenario_authority [[''id'' \<mapsto> JInt 998]]" 1010 "scenario_request ''abc''" empty_state]
    callback_directory [OF prod.collapse [symmetric],
      of "scenario_authority [[''id'' \<mapsto> JInt 999]]" 1010 "scenario_request ''abc''" empty_state]
  show ?thesis
    by (auto simp: denied linked req scenario_token_decodes)
qed

text \<open>
  C6. A callback in which \<^verbatim>\<open>code\<close>, \<^verbatim>\<open>installation_id\<close> or \<^verbatim>\<open>state\<close> is
  absent ends with a missing-parameter \<open>HTTPException\<close> of status 400, and makes no
  outbound call: the log of calls (and the directory) is unchanged.
\<close>

theorem callback_missing_parameter:
  "code req = None \<or> installation_id req = None \<or> state req = None \<Longrightarrow>
   (fst (github_callback auth now req s) = Inl (HTTPException 400 ''Missing OAuth code.'') \<or>
    fst (github_callback auth now req s) = Inl (HTTPException 400 ''Missing installation_id.'') \<or>
    fst (github_callback auth now req s) = Inl (HTTPException 400 ''Missing state token.'')) \<and>
   calls (snd (github_callback auth now req s)) = calls s \<and>
   INSTALLATIONS_DB (snd (github_callback auth now req s)) = INSTALLATIONS_DB s"
proof -
  assume "code req = None \<or> installation_id req = None \<or> state req = None"
  then have "\<not> params_present req"
    by (auto simp: params_present_def)
  then show ?thesis
    by (simp add: github_callback_absent)
qed

theorem callback_missing_parameter_witness:
  "fst (github_callback (scenario_authority [[''id'' \<mapsto> JInt 999]]) 1010
          ((scenario_request ''abc'')\<lparr>code := None\<rparr>) empty_state)
     = Inl (HTTPException 400 ''Missing OAuth code.'') \<and>
   calls (snd (github_callback (scenario_authority [[''id'' \<mapsto> JInt 999]]) 1010
          ((scenario_request ''abc'')\<lparr>code := None\<rparr>) empty_state)) = []"
  using callback_missing_parameter
    [of "(scenario_request ''abc'')\<lparr>code := None\<rparr>"
        "scenario_authority [[''id'' \<mapsto> JInt 999]]" 1010 empty_state]
  by (simp add: run_defs)

text \<open>
  C7. The claim gives status 400 to every callback with an invalid state token. The
  callback whose state token is signed with the secret, unexpired and without
  \<^verbatim>\<open>account_id\<close> ends with the \<^verbatim>\<open>KeyError\<close> that \<^verbatim>\<open>decode_state_token\<close> lets
  through: no \<open>HTTPException\<close>, hence no status 400 (and no outbound call).
\<close>

theorem callback_missing_account_id:
  "github_callback (scenario_authority [[''id'' \<mapsto> JInt 999]]) 1000 no_account_request empty_state
     = (Inl (KeyError ''account_id''), empty_state) \<and>
   \<not> is_http_exception (KeyError ''account_id'')"
  by (simp add: run_defs)

text \<open>
  C8, as the specification words it, fails: the handler keeps no record of the tokens
  it has seen. With an authority that accepts each code once, a callback with the state
  token and code \<^verbatim>\<open>abc\<close> completes, and a second callback with the same state token
  and the fresh code \<^verbatim>\<open>def\<close> completes as well.
\<close>

theorem state_token_replay_counterexample:
  "state (scenario_request ''def'') = state (scenario_request ''abc'') \<and>
   fst (github_callback (scenario_authority [[''id'' \<mapsto> JInt 999]]) 1010
          (scenario_request ''abc'') empty_state) = Inr (RedirectResponse ''/setup'') \<and>
   fst (github_callback (scenario_authority [[''id'' \<mapsto> JInt 999]]) 1020
          (scenario_request ''def'')
          (snd (github_callback (scenario_authority [[''id'' \<mapsto> JInt 999]]) 1010
                  (scenario_request ''abc'') empty_state)))
     = Inr (RedirectResponse ''/setup'')"
  by (simp add: run_defs)

text \<open>
  C8, amended. A state token is not consumed: in any state, also one left by a
  completed callback with the same token, a callback whose token decodes at that time,
  whose code exchange returns a credential and whose ownership check is true completes
  with the redirect and writes the directory.
\<close>

theorem callback_does_not_consume_token:
  "params_present req \<Longrightarrow> decode_state_token (the (state req)) now = Inr acct \<Longrightarrow>
   fst (exchange_code_for_user_token auth (the (code req)) (the (state req)) (calls s)) = Inr (Some ut) \<Longrightarrow>
   fst (user_owns_installation auth ut (the (installation_id req))
           (calls s @ [PostAccessToken (the (code req)) (the (state req))])) = Inr True \<Longrightarrow>
   fst (github_callback auth now req s) = Inr (RedirectResponse ''/setup'') \<and>
   INSTALLATIONS_DB (snd (github_callback auth now req s)) =
     (INSTALLATIONS_DB s)(acct \<mapsto> the (installation_id req))"
  by (simp add: github_callback_unfolded)

theorem callback_does_not_consume_token_witness:
  "fst (github_callback (scenario_authority [[''id'' \<mapsto> JInt 999]]) 1010
          (scenario_request ''abc'') empty_state) = Inr (RedirectResponse ''/setup'') \<and>
   params_present (scenario_request ''def'') \<and>
   state (scenario_request ''def'') = state (scenario_request ''abc'') \<and>
   fst (github_callback (scenario_authority [[''id'' \<mapsto> JInt 999]]) 1020
          (scenario_request ''def'')
          (snd (github_callback (scenario_authority [[''id'' \<mapsto> JInt 999]]) 1010
                  (scenario_request ''abc'') empty_state)))
     = Inr (RedirectResponse ''/setup'') \<and>
   INSTALLATIONS_DB
     (snd (github_callback (scenario_authority [[''id'' \<mapsto> JInt 999]]) 1020
          (scenario_request ''def'')
          (snd (github_callback (scenario_authority [[''id'' \<mapsto> JInt 999]]) 1010
                  (scenario_request ''abc'') empty_state)))) = [''acct-1'' \<mapsto> ''999'']"
  using callback_does_not_consume_token
    [of "scenario_request ''def''" 1020 "''acct-1''" "scenario_authority [[''id'' \<mapsto> JInt 999]]"
        "snd (github_callback (scenario_authority [[''id'' \<mapsto> JInt 999]]) 1010
                  (scenario_request ''abc'') empty_state)" "''u-tok''"]
  by (simp add: run_defs)

section \<open>Timeouts of the outbound calls\<close>

text \<open>
  C9, as the specification words it, fails: when the code exchange times out, the
  handler ends with the client's own exception, which is not an \<open>HTTPException\<close> and
  carries no status of its own.
\<close>

theorem timeout_counterexample:
  "fst (github_callback timeout_authority 1010 (scenario_request ''abc'') empty_state)
     = Inl TimeoutException \<and>
   \<not> is_http_exception TimeoutException"
  by (simp add: run_defs)

text \<open>
  C9, amended. Every outbound call is bounded by a timeout, the five seconds of the
  HTTP client: the program waits no longer for it, and a call that is not answered in
  that time raises \<^verbatim>\<open>TimeoutException\<close>. A timed-out call is a failed call whose
  exception nothing catches: in the code exchange and the installation listing it ends
  \<^verbatim>\<open>github_callback\<close>, in the installation-token request and the contents fetch it ends
  \<^verbatim>\<open>list_files_in_repo\<close>, each time with that exception (not an \<open>HTTPException\<close>), the
  directory unchanged.
\<close>

theorem outbound_call_timeout:
  "httpx_elapsed (auth log c) \<le> httpx_timeout \<and>
   (timed_out (auth log c) \<longrightarrow> httpx_send (auth log c) = Raised TimeoutException) \<and>
   \<not> is_http_exception TimeoutException \<and>
   (params_present req \<and> decode_state_token (the (state req)) now = Inr acct \<and>
    timed_out (auth (calls s) (PostAccessToken (the (code req)) (the (state req)))) \<longrightarrow>
      fst (github_callback auth now req s) = Inl TimeoutException \<and>
      INSTALLATIONS_DB (snd (github_callback auth now req s)) = INSTALLATIONS_DB s) \<and>
   (params_present req \<and> decode_state_token (the (state req)) now = Inr acct \<and>
    fst (exchange_code_for_user_token auth (the (code req)) (the (state req)) (calls s))
      = Inr (Some ut) \<and>
    timed_out (auth (calls s @ [PostAccessToken (the (code req)) (the (state req))])
                 (GetUserInstallations ut)) \<longrightarrow>
      fst (github_callback auth now req s) = Inl TimeoutException \<and>
      INSTALLATIONS_DB (snd (github_callback auth now req s)) = INSTALLATIONS_DB s) \<and>
   (timed_out (auth log (PostInstallationToken (generate_app_jwt now) iid)) \<longrightarrow>
      fst (list_files_in_repo auth now owner repo iid log) = Inl TimeoutException) \<and>
   (fst (get_installation_token auth (generate_app_jwt now) iid log) = Inr (Some tok) \<and>
    tok \<noteq> [] \<and>
    timed_out (auth (log @ [PostInstallationToken (generate_app_jwt now) iid])
                 (GetContents owner repo tok)) \<longrightarrow>
      fst (list_files_in_repo auth now owner repo iid log) = Inl TimeoutException)"
proof (intro conjI impI)
  show "httpx_elapsed (auth log c) \<le> httpx_timeout"
    by (rule httpx_elapsed_le)
next
  assume "timed_out (auth log c)"
  then show "httpx_send (auth log c) = Raised TimeoutException"
    by (rule timed_out_send)
next
  show "\<not> is_http_exception TimeoutException"
    by simp
next
  assume h: "params_present req \<and> decode_state_token (the (state req)) now = Inr acct \<and>
    timed_out (auth (calls s) (PostAccessToken (the (code req)) (the (state req))))"
  then have "exchange_code_for_user_token auth (the (code req)) (the (state req)) (calls s)
      = (Inl TimeoutException, calls s @ [PostAccessToken (the (code req)) (the (state req))])"
    by (simp add: exchange_raised timed_out_send)
  with h show "fst (github_callback auth now req s) = Inl TimeoutException"
    and "INSTALLATIONS_DB (snd (github_callback auth now req s)) = INSTALLATIONS_DB s"
    by (simp_all add: github_callback_unfolded)
next
  assume h: "params_present req \<and> decode_state_token (the (state req)) now = Inr acct \<and>
    fst (exchange_code_for_user_token auth (the (code req)) (the (state req)) (calls s))
      = Inr (Some ut) \<and>
    timed_out (auth (calls s @ [PostAccessToken (the (code req)) (the (state req))])
                 (GetUserInstallations ut))"
  then have "user_owns_installation auth ut (the (installation_id req))
        (calls s @ [PostAccessToken (the (code req)) (the (state req))])
      = (Inl TimeoutException,
         (calls s @ [PostAccessToken (the (code req)) (the (state req))]) @ [GetUserInstallations ut])"
    by (simp add: user_owns_installation_raised timed_out_send)
  with h show "fst (github_callback auth now req s) = Inl TimeoutException"
    and "INSTALLATIONS_DB (snd (github_callback auth now req s)) = INSTALLATIONS_DB s"
    by (simp_all add: github_callback_unfolded)
next
  assume "timed_out (auth log (PostInstallationToken (generate_app_jwt now) iid))"
  then show "fst (list_files_in_repo auth now owner repo iid log) = Inl TimeoutException"
    by (simp add: list_files_in_repo_token_raised timed_out_send)
next
  assume "fst (get_installation_token auth (generate_app_jwt now) iid log) = Inr (Some tok) \<and>
    tok \<noteq> [] \<and>
    timed_out (auth (log @ [PostInstallationToken (generate_app_jwt now) iid])
                 (GetContents owner repo tok))"
  then show "fst (list_files_in_repo auth now owner repo iid log) = Inl TimeoutException"
    by (simp add: list_files_in_repo_contents_raised timed_out_send)
qed

theorem outbound_call_timeout_witness:
  "httpx_elapsed (slow_second_authority [] (GetUserInstallations ''u-tok'')) \<le> httpx_timeout \<and>
   timed_out (slow_second_authority [] (GetUserInstallations ''u-tok'')) \<and>
   httpx_send (slow_second_authority [] (GetUserInstallations ''u-tok'')) = Raised TimeoutException \<and>
   fst (github_callback timeout_authority 1010 (scenario_request ''abc'') empty_state)
     = Inl TimeoutException \<and>
   INSTALLATIONS_DB (snd (github_callback timeout_authority 1010 (scenario_request ''abc'') empty_state))
     = Map.empty \<and>
   fst (github_callback slow_second_authority 1010 (scenario_request ''abc'') empty_state)
     = Inl TimeoutException \<and>
   INSTALLATIONS_DB (snd (github_callback slow_second_authority 1010 (scenario_request ''abc'') empty_state))
     = Map.empty \<and>
   fst (list_files_in_repo timeout_authority 1010 ''octo'' ''repo'' 999 []) = Inl TimeoutException \<and>
   fst (list_files_in_repo slow_second_authority 1010 ''octo'' ''repo'' 999 []) = Inl TimeoutException"
  using
    outbound_call_timeout
      [of slow_second_authority "[]" "GetUserInstallations ''u-tok''"
          "scenario_request ''abc''" 1010 "''acct-1''" empty_state "''u-tok''" 999
          "''octo''" "''repo''" "''ghs-tok''"]
    outbound_call_timeout
      [of timeout_authority "[]" "GetUserInstallations ''u-tok''"
          "scenario_request ''abc''" 1010 "''acct-1''" empty_state "''u-tok''" 999
          "''octo''" "''repo''" "''ghs-tok''"]
  by (simp add: run_defs)

end
